theory Spec2Isabelle
  imports Complex_Main "HOL-Library.Word" "HOL-Library.Sublist"
begin

section \<open>Python values used by the adapter\<close>

text \<open>
  The development embeds \<^verbatim>\<open>src/pipecat_upliftai/tts.py\<close>, the class
  \<^verbatim>\<open>UpliftHttpTTSService\<close>. Python strings are lists of characters, \<^verbatim>\<open>bytes\<close> are
  lists of 8-bit words, Python integers are \<^typ>\<open>int\<close>, and \<^verbatim>\<open>Optional[str]\<close> is
  \<^typ>\<open>string option\<close>.
\<close>

type_synonym byte = "8 word"

text \<open>
  The exceptions that reach the \<^verbatim>\<open>except Exception\<close> clause of \<^verbatim>\<open>run_tts\<close> or
  leave \<^verbatim>\<open>__init__\<close>. Each carries the text that \<^verbatim>\<open>str(e)\<close> returns. \<open>ClientError\<close>
  stands for whatever subclass of \<^verbatim>\<open>Exception\<close> the HTTP client raises.
\<close>

datatype exn = ValueError string | AttributeError string | ClientError string

fun str_exn :: "exn \<Rightarrow> string" where
  "str_exn (ValueError m) = m"
| "str_exn (AttributeError m) = m"
| "str_exn (ClientError m) = m"

text \<open>\<^verbatim>\<open>x or y\<close> for an optional string \<open>x\<close>: \<open>None\<close> and the empty string are falsy.\<close>

fun py_or :: "string option \<Rightarrow> string \<Rightarrow> string" where
  "py_or None y = y"
| "py_or (Some x) y = (if x = [] then y else x)"

text \<open>\<^verbatim>\<open>sep.join(xs)\<close>.\<close>

fun join :: "string \<Rightarrow> string list \<Rightarrow> string" where
  "join sep [] = []"
| "join sep [x] = x"
| "join sep (x # y # ys) = x @ sep @ join sep (y # ys)"

text \<open>\<^verbatim>\<open>str(n)\<close> for an integer: its decimal digits, with a minus sign when negative.\<close>

definition digit_char :: "nat \<Rightarrow> char" where
  "digit_char d = ''0123456789'' ! d"

fun str_nat :: "nat \<Rightarrow> string" where
  "str_nat n = (if n < 10 then [digit_char n] else str_nat (n div 10) @ [digit_char (n mod 10)])"

declare str_nat.simps [simp del]

definition str_int :: "int \<Rightarrow> string" where
  "str_int i = (if i < 0 then CHR ''-'' # str_nat (nat (- i)) else str_nat (nat i))"

text \<open>
  \<^verbatim>\<open>xs[i:j]\<close> and \<^verbatim>\<open>xs[i:]\<close>: a negative index counts from the end, and both
  indices are clamped to the sequence.
\<close>

definition clamp_index :: "int \<Rightarrow> int \<Rightarrow> int" where
  "clamp_index n k = (if k < 0 then max (k + n) 0 else min k n)"

definition py_slice :: "'a list \<Rightarrow> int \<Rightarrow> int \<Rightarrow> 'a list" where
  "py_slice xs i j =
     (let n = int (length xs); lo = clamp_index n i; hi = clamp_index n j
      in take (nat (hi - lo)) (drop (nat lo) xs))"

definition py_slice_from :: "'a list \<Rightarrow> int \<Rightarrow> 'a list" where
  "py_slice_from xs i = drop (nat (clamp_index (int (length xs)) i)) xs"

text \<open>
  \<^verbatim>\<open>range(start, stop, step)\<close>: a zero step raises \<^verbatim>\<open>ValueError\<close>; otherwise the
  range has the length CPython computes for it and its \<open>k\<close>-th element is
  \<open>start + k * step\<close>.
\<close>

definition range_length :: "int \<Rightarrow> int \<Rightarrow> int \<Rightarrow> int" where
  "range_length lo hi step = (if lo < hi then (hi - lo - 1) div step + 1 else 0)"

definition py_range :: "int \<Rightarrow> int \<Rightarrow> int \<Rightarrow> exn + int list" where
  "py_range start stop step =
     (if step = 0 then Inl (ValueError ''range() arg 3 must not be zero'')
      else
        let n = (if 0 < step then range_length start stop step
                 else range_length stop start (- step))
        in Inr (map (\<lambda>k. start + int k * step) [0..<nat n]))"

section \<open>Frames, effects and the adapter\<close>

text \<open>The four kinds of frame \<^verbatim>\<open>run_tts\<close> produces.\<close>

datatype frame =
    TTSStartedFrame
  | TTSAudioRawFrame (audio: "byte list") (frame_sample_rate: int) (num_channels: int)
  | TTSStoppedFrame
  | ErrorFrame (error: string)

datatype level = DEBUG | INFO | WARNING | ERROR

text \<open>An \<^verbatim>\<open>aiohttp.ClientSession\<close> object, by identity.\<close>

type_synonym session = nat

text \<open>
  What a method does besides changing the adapter, in the order it does it: a line
  written to the logger, a session created or closed, a call of a metrics hook of the
  base service, the HTTP POST (session, URL, JSON payload, headers), a frame handed to
  \<^verbatim>\<open>push_error\<close>, and a frame yielded to the consumer.
\<close>

datatype effect =
    Log level string
  | CreateSession session
  | CloseSession session
  | StartTTFBMetrics
  | StopTTFBMetrics
  | StartTTSUsageMetrics string
  | Post session string "(string \<times> string) list" "(string \<times> string) list"
  | PushError frame
  | Yield frame

record input_params =
  params_voice_id :: "string option"
  params_output_format :: "string option"

text \<open>\<^verbatim>\<open>InputParams()\<close> with its field defaults.\<close>

definition InputParams :: input_params where
  "InputParams = \<lparr>params_voice_id = None, params_output_format = Some ''WAV_22050_16''\<rparr>"

text \<open>The dictionary \<^verbatim>\<open>self._settings\<close>: it is created with exactly the keys
  \<^verbatim>\<open>"voice_id"\<close> and \<^verbatim>\<open>"output_format"\<close> and only ever read and assigned at them.\<close>

record settings =
  voice_id :: string
  output_format :: string

text \<open>
  Modelled from the spec: the base class \<^verbatim>\<open>TTSService\<close> of the framework, which is
  not part of the repository. The adapter uses its registered voice (written by
  \<^verbatim>\<open>set_voice\<close>), its \<^verbatim>\<open>sample_rate\<close> and \<^verbatim>\<open>chunk_size\<close> properties and its
  printed name; the metrics hooks and \<^verbatim>\<open>push_error\<close> are recorded as effects and
  return normally.
\<close>

record tts_service =
  voice :: string
  sample_rate :: int
  chunk_size :: int
  service_name :: string

record adapter = tts_service +
  api_key :: string
  base_url :: string
  params :: input_params
  session :: "session option"
  created_session :: bool
  settings :: settings

definition set_voice :: "string \<Rightarrow> adapter \<Rightarrow> adapter" where
  "set_voice v a = a\<lparr>voice := v\<rparr>"

definition AVAILABLE_VOICES :: "string list" where
  "AVAILABLE_VOICES = [''v_8eelc901'', ''v_kwmp7zxt'', ''v_yypgzenx'', ''v_30s70t3a'']"

definition AVAILABLE_FORMATS :: "string list" where
  "AVAILABLE_FORMATS =
     [''WAV_22050_16'', ''WAV_22050_32'', ''MP3_22050_32'', ''MP3_22050_64'',
      ''MP3_22050_128'', ''OGG_22050_16'', ''ULAW_8000_8'']"

section \<open>Construction\<close>

record init_args =
  arg_api_key :: string
  arg_base_url :: string
  arg_voice_id :: string
  arg_output_format :: string
  arg_sample_rate :: int
  arg_aiohttp_session :: "session option"
  arg_params :: "input_params option"

text \<open>The keyword defaults of \<^verbatim>\<open>__init__\<close>; \<^verbatim>\<open>api_key\<close> has none.\<close>

definition default_args :: "string \<Rightarrow> init_args" where
  "default_args key =
     \<lparr>arg_api_key = key,
      arg_base_url = ''https://api.upliftai.org/v1/synthesis/text-to-speech'',
      arg_voice_id = ''v_8eelc901'',
      arg_output_format = ''WAV_22050_16'',
      arg_sample_rate = 22050,
      arg_aiohttp_session = None,
      arg_params = None\<rparr>"

definition unknown_format_warning :: "string \<Rightarrow> effect" where
  "unknown_format_warning f =
     Log WARNING (''Output format '' @ [CHR 0x27] @ f @ [CHR 0x27] @
       '' not in known formats list. Available formats: '' @ join '', '' AVAILABLE_FORMATS)"

definition unknown_voice_warning :: "string \<Rightarrow> effect" where
  "unknown_voice_warning v =
     Log WARNING (''Voice '' @ [CHR 0x27] @ v @ [CHR 0x27] @
       '' not in known voices list. Available voices: '' @ join '', '' AVAILABLE_VOICES)"

text \<open>
  \<^verbatim>\<open>__init__\<close>. \<open>cs\<close> and \<open>nm\<close> are the chunk size and the name the base service is
  configured with, \<open>fresh\<close> is the object \<^verbatim>\<open>aiohttp.ClientSession()\<close> returns when it
  is called. A \<^verbatim>\<open>params\<close> object is truthy, so \<^verbatim>\<open>params or InputParams()\<close> is the
  object when one is passed. The result is the \<^verbatim>\<open>ValueError\<close> raised, or the adapter
  with the effects of the construction.
\<close>

definition init :: "init_args \<Rightarrow> int \<Rightarrow> string \<Rightarrow> session \<Rightarrow> exn + adapter \<times> effect list" where
  "init args cs nm fresh =
     (if arg_api_key args = [] then Inl (ValueError ''Missing Uplift API key'')
      else
        let p = (case arg_params args of None \<Rightarrow> InputParams | Some q \<Rightarrow> q);
            (sess, created, t1) =
              (case arg_aiohttp_session args of
                 None \<Rightarrow> (fresh, True,
                           [CreateSession fresh, Log DEBUG ''Created internal aiohttp session''])
               | Some s \<Rightarrow> (s, False, []));
            final_output_format = py_or (params_output_format p) (arg_output_format args);
            t2 = (if final_output_format \<notin> set AVAILABLE_FORMATS
                  then [unknown_format_warning final_output_format] else []);
            st = \<lparr>voice_id = py_or (params_voice_id p) (arg_voice_id args),
                  output_format = final_output_format\<rparr>;
            t3 = (if voice_id st \<notin> set AVAILABLE_VOICES
                  then [unknown_voice_warning (voice_id st)] else []);
            a = \<lparr>voice = [], sample_rate = arg_sample_rate args, chunk_size = cs,
                 service_name = nm,
                 api_key = arg_api_key args, base_url = arg_base_url args, params = p,
                 session = Some sess, created_session = created, settings = st\<rparr>
        in Inr (set_voice (voice_id st) a,
                t1 @ t2 @ t3 @
                [Log DEBUG (''Uplift HTTP TTS initialized with voice_id='' @ voice_id st @
                            '', output_format='' @ output_format st)]))"

section \<open>Setters and cleanup\<close>

definition set_voice_id :: "string \<Rightarrow> adapter \<Rightarrow> adapter \<times> effect list" where
  "set_voice_id v a =
     (set_voice v (a\<lparr>settings := (settings a)\<lparr>voice_id := v\<rparr>\<rparr>),
      (if v \<notin> set AVAILABLE_VOICES then [unknown_voice_warning v] else []) @
      [Log INFO (''Switching Uplift TTS voice to: ['' @ v @ '']'')])"

definition set_output_format :: "string \<Rightarrow> adapter \<Rightarrow> adapter \<times> effect list" where
  "set_output_format f a =
     (a\<lparr>settings := (settings a)\<lparr>output_format := f\<rparr>\<rparr>,
      (if f \<notin> set AVAILABLE_FORMATS then [unknown_format_warning f] else []) @
      [Log INFO (''Switching Uplift TTS output format to: ['' @ f @ '']'')])"

text \<open>\<^verbatim>\<open>cleanup\<close>: the session object is truthy whenever the reference is not \<^verbatim>\<open>None\<close>.\<close>

definition cleanup :: "adapter \<Rightarrow> adapter \<times> effect list" where
  "cleanup a =
     (case session a of
        Some s \<Rightarrow>
          if created_session a
          then (a\<lparr>session := None\<rparr>,
                [CloseSession s, Log DEBUG ''Closed internal aiohttp session''])
          else (a, [])
      | None \<Rightarrow> (a, []))"

section \<open>Synthesis\<close>

text \<open>
  The HTTP transport is outside the adapter. What it answers to the POST is an input of
  the model: the request raises, or it returns a response with a status, whose
  \<^verbatim>\<open>text()\<close> and \<^verbatim>\<open>read()\<close> each raise or return the body.
\<close>

datatype http_response =
  Response (status: int) (text_result: "exn + string") (read_result: "exn + byte list")

type_synonym post_result = "exn + http_response"

text \<open>The truncation at the head of \<^verbatim>\<open>run_tts\<close>: the warning it logs, and the text
  that goes on.\<close>

definition truncate_text :: "string \<Rightarrow> effect list \<times> string" where
  "truncate_text text =
     (if length text > 2500
      then ([Log WARNING (''Text length ('' @ str_int (int (length text)) @
               '') exceeds Uplift'' @ [CHR 0x27] @
               ''s maximum of 2500 characters. Truncating...'')],
            py_slice text 0 2500)
      else ([], text))"

definition request_headers :: "adapter \<Rightarrow> (string \<times> string) list" where
  "request_headers a =
     [(''Authorization'', ''Bearer '' @ api_key a), (''Content-Type'', ''application/json'')]"

definition request_payload :: "adapter \<Rightarrow> string \<Rightarrow> (string \<times> string) list" where
  "request_payload a text =
     [(''text'', text), (''voiceId'', voice_id (settings a)),
      (''outputFormat'', output_format (settings a))]"

text \<open>
  The loop over \<^verbatim>\<open>range(0, len(audio_content), CHUNK_SIZE)\<close>, given the indices of
  the range: an empty chunk leaves the loop, any other chunk stops the TTFB metrics and
  is yielded in an audio frame.
\<close>

fun chunk_loop :: "adapter \<Rightarrow> byte list \<Rightarrow> int list \<Rightarrow> effect list" where
  "chunk_loop a audio_content [] = []"
| "chunk_loop a audio_content (i # rest) =
     (let chunk = py_slice audio_content i (i + chunk_size a)
      in if chunk = [] then []
         else StopTTFBMetrics # Yield (TTSAudioRawFrame chunk (sample_rate a) 1) #
              chunk_loop a audio_content rest)"

text \<open>
  The body of the \<^verbatim>\<open>try\<close> statement: the effects it has, and the exception that
  ends it, if one does. A missing session (the reference is \<^verbatim>\<open>None\<close> after
  \<^verbatim>\<open>cleanup\<close>) raises \<^verbatim>\<open>AttributeError\<close> before any request is made.
\<close>

definition try_body :: "adapter \<Rightarrow> post_result \<Rightarrow> string \<Rightarrow> effect list \<times> exn option" where
  "try_body a env text =
     (case session a of
        None \<Rightarrow>
          ([StartTTFBMetrics],
           Some (AttributeError
             ([CHR 0x27] @ ''NoneType'' @ [CHR 0x27] @ '' object has no attribute '' @
              [CHR 0x27] @ ''post'' @ [CHR 0x27])))
      | Some s \<Rightarrow>
          let t0 = [StartTTFBMetrics,
                    Post s (base_url a) (request_payload a text) (request_headers a)]
          in
          (case env of
             Inl e \<Rightarrow> (t0, Some e)
           | Inr response \<Rightarrow>
               if status response \<noteq> 200 then
                 (case text_result response of
                    Inl e \<Rightarrow> (t0, Some e)
                  | Inr error_text \<Rightarrow>
                      let error_message = ''Uplift HTTP TTS error: '' @
                            str_int (status response) @ '' - '' @ error_text
                      in (t0 @ [Log ERROR error_message,
                                PushError (ErrorFrame error_message),
                                Yield (ErrorFrame error_message)], None))
               else
                 (case read_result response of
                    Inl e \<Rightarrow> (t0, Some e)
                  | Inr audio_bytes \<Rightarrow>
                      let t1 = t0 @ [StartTTSUsageMetrics text, Yield TTSStartedFrame];
                          (audio_content, t2) =
                            (if prefix ''WAV_'' (output_format (settings a))
                             then (py_slice_from audio_bytes 44,
                                   t1 @ [Log DEBUG ''Skipping WAV header (44 bytes)''])
                             else (audio_bytes,
                                   t1 @ [Log DEBUG ''Using raw audio bytes (no header to skip)'']))
                      in
                      (case py_range 0 (int (length audio_content)) (chunk_size a) of
                         Inl e \<Rightarrow> (t2, Some e)
                       | Inr indices \<Rightarrow>
                           (t2 @ chunk_loop a audio_content indices @
                            [Yield TTSStoppedFrame], None)))))"

text \<open>The \<^verbatim>\<open>except Exception\<close> clause.\<close>

definition handler :: "exn \<Rightarrow> effect list" where
  "handler e =
     (let error_message = ''TTS generation error: '' @ str_exn e
      in [Log ERROR error_message, PushError (ErrorFrame error_message),
          Yield (ErrorFrame error_message)])"

text \<open>
  \<^verbatim>\<open>run_tts\<close>, run to exhaustion by its consumer: the adapter after the call (the
  method assigns to no attribute) and every effect of the call in order.
\<close>

definition run_tts :: "adapter \<Rightarrow> post_result \<Rightarrow> string \<Rightarrow> adapter \<times> effect list" where
  "run_tts a env text =
     (let (t0, text') = truncate_text text;
          (t1, raised) = try_body a env text'
      in (a, Log DEBUG (service_name a @ '': Generating TTS ['' @ text @ '']'') # t0 @ t1 @
             (case raised of None \<Rightarrow> [] | Some e \<Rightarrow> handler e)))"

subsection \<open>Reading a trace\<close>

fun yielded :: "effect list \<Rightarrow> frame list" where
  "yielded [] = []"
| "yielded (Yield f # t) = f # yielded t"
| "yielded (_ # t) = yielded t"

fun pushed :: "effect list \<Rightarrow> frame list" where
  "pushed [] = []"
| "pushed (PushError f # t) = f # pushed t"
| "pushed (_ # t) = pushed t"

fun requests :: "effect list \<Rightarrow> (string \<times> (string \<times> string) list \<times> (string \<times> string) list) list" where
  "requests [] = []"
| "requests (Post s url payload headers # t) = (url, payload, headers) # requests t"
| "requests (_ # t) = requests t"

fun closed :: "effect list \<Rightarrow> session list" where
  "closed [] = []"
| "closed (CloseSession s # t) = s # closed t"
| "closed (_ # t) = closed t"

fun logged :: "level \<Rightarrow> effect list \<Rightarrow> string list" where
  "logged l [] = []"
| "logged l (Log l' m # t) = (if l' = l then m # logged l t else logged l t)"
| "logged l (_ # t) = logged l t"

fun is_audio :: "frame \<Rightarrow> bool" where
  "is_audio (TTSAudioRawFrame _ _ _) = True"
| "is_audio _ = False"

fun is_error :: "frame \<Rightarrow> bool" where
  "is_error (ErrorFrame _) = True"
| "is_error _ = False"

text \<open>The byte strings of the audio frames among some frames, in order.\<close>

definition segments :: "frame list \<Rightarrow> byte list list" where
  "segments fs = map audio (filter is_audio fs)"

section \<open>Notions used to state the properties\<close>

text \<open>The number of chunks of size \<open>n\<close> that \<open>l\<close> bytes are cut into.\<close>

definition chunk_count :: "nat \<Rightarrow> nat \<Rightarrow> nat" where
  "chunk_count l n = (if l = 0 then 0 else (l - 1) div n + 1)"

text \<open>The audio content of a response body under the adapter's output format.\<close>

definition content_of :: "adapter \<Rightarrow> byte list \<Rightarrow> byte list" where
  "content_of a bytes =
     (if prefix ''WAV_'' (output_format (settings a)) then drop 44 bytes else bytes)"

text \<open>The audio frames of a content, chunk by chunk.\<close>

definition audio_frames :: "adapter \<Rightarrow> byte list \<Rightarrow> frame list" where
  "audio_frames a c =
     map (\<lambda>k. TTSAudioRawFrame (take (nat (chunk_size a)) (drop (k * nat (chunk_size a)) c))
                (sample_rate a) 1)
       [0..<chunk_count (length c) (nat (chunk_size a))]"

text \<open>The request returned a response with status 200 whose body could be read.\<close>

definition responded_ok :: "post_result \<Rightarrow> bool" where
  "responded_ok env =
     (case env of Inl _ \<Rightarrow> False
      | Inr r \<Rightarrow> status r = 200 \<and> (case read_result r of Inl _ \<Rightarrow> False | Inr _ \<Rightarrow> True))"

text \<open>
  A call succeeds fully when there is a session to post with, the response is as above
  and the chunk size is one \<^verbatim>\<open>range\<close> accepts as a step.
\<close>

definition succeeds_fully :: "adapter \<Rightarrow> post_result \<Rightarrow> bool" where
  "succeeds_fully a env = (session a \<noteq> None \<and> responded_ok env \<and> chunk_size a \<noteq> 0)"

subsection \<open>Concrete inputs\<close>

text \<open>
  The adapter \<^verbatim>\<open>UpliftHttpTTSService(api_key="sk_test")\<close> with an internal session,
  in a service whose chunk size is 4 bytes.
\<close>

definition example_adapter :: adapter where
  "example_adapter =
     \<lparr>voice = ''v_8eelc901'', sample_rate = 22050, chunk_size = 4,
      service_name = ''UpliftHttpTTSService#0'',
      api_key = ''sk_test'',
      base_url = ''https://api.upliftai.org/v1/synthesis/text-to-speech'',
      params = InputParams, session = Some 0, created_session = True,
      settings = \<lparr>voice_id = ''v_8eelc901'', output_format = ''WAV_22050_16''\<rparr>\<rparr>"

text \<open>The same adapter after \<^verbatim>\<open>set_output_format("MP3_22050_32")\<close>.\<close>

definition example_mp3_adapter :: adapter where
  "example_mp3_adapter = fst (set_output_format ''MP3_22050_32'' example_adapter)"

text \<open>A response body: 44 header bytes, then nine bytes of audio.\<close>

definition example_body :: "byte list" where
  "example_body = replicate 44 0 @ [1, 2, 3, 4, 5, 6, 7, 8, 9]"

definition example_ok :: post_result where
  "example_ok = Inr (Response 200 (Inr []) (Inr example_body))"

definition example_503 :: post_result where
  "example_503 = Inr (Response 503 (Inr ''server overloaded'') (Inr []))"

text \<open>A response with status 500 whose body cannot be read as text.\<close>

definition example_500_unreadable :: post_result where
  "example_500_unreadable = Inr (Response 500 (Inl (ClientError ''bad body'')) (Inr []))"

text \<open>The request itself fails: the client raises.\<close>

definition example_post_fails :: post_result where
  "example_post_fails = Inl (ClientError ''Cannot connect to host api.upliftai.org:443'')"

text \<open>Constructor arguments with a session supplied by the caller.\<close>

definition example_borrowed_args :: init_args where
  "example_borrowed_args = (default_args ''sk_test'')\<lparr>arg_aiohttp_session := Some 5\<rparr>"

text \<open>Constructor arguments that ask for an MP3 format and pass no \<^verbatim>\<open>params\<close>.\<close>

definition example_mp3_args :: init_args where
  "example_mp3_args = (default_args ''sk_test'')\<lparr>arg_output_format := ''MP3_22050_32''\<rparr>"

section \<open>Auxiliary facts\<close>

lemma yielded_append: "yielded (xs @ ys) = yielded xs @ yielded ys"
  by (induction xs rule: yielded.induct) simp_all

lemma pushed_append: "pushed (xs @ ys) = pushed xs @ pushed ys"
  by (induction xs rule: pushed.induct) simp_all

lemma requests_append: "requests (xs @ ys) = requests xs @ requests ys"
  by (induction xs rule: requests.induct) simp_all

lemma logged_append: "logged l (xs @ ys) = logged l xs @ logged l ys"
  by (induction l xs rule: logged.induct) simp_all

lemma py_slice_chunk:
  assumes "0 \<le> i" "i < int (length c)" "0 < n"
  shows "py_slice c i (i + n) = take (nat n) (drop (nat i) c)"
proof (cases "i + n \<le> int (length c)")
  case True
  with assms show ?thesis
    by (simp add: py_slice_def clamp_index_def Let_def)
next
  case False
  with assms have "py_slice c i (i + n) = drop (nat i) c"
    by (simp add: py_slice_def clamp_index_def Let_def nat_diff_distrib)
  moreover from False assms have "length c - nat i \<le> nat n" by linarith
  then have "take (nat n) (drop (nat i) c) = drop (nat i) c" by simp
  ultimately show ?thesis by simp
qed

lemma py_slice_chunk_nonempty:
  assumes "0 \<le> i" "i < int (length c)" "0 < n"
  shows "py_slice c i (i + n) \<noteq> []"
  using assms by (simp add: py_slice_chunk)

lemma range_length_pos:
  assumes "0 < n"
  shows "nat (range_length 0 (int l) n) = chunk_count l (nat n)"
proof (cases "l = 0")
  case True
  then show ?thesis by (simp add: range_length_def chunk_count_def)
next
  case False
  then have "int l - 1 = int (l - 1)" by simp
  moreover from assms have "n = int (nat n)" by simp
  ultimately have "(int l - 1) div n = int ((l - 1) div nat n)"
    by (metis zdiv_int)
  with False show ?thesis
    by (simp add: range_length_def chunk_count_def nat_add_distrib)
qed

lemma py_range_pos:
  assumes "0 < n"
  shows "py_range 0 (int l) n = Inr (map (\<lambda>k. int k * n) [0..<chunk_count l (nat n)])"
  using assms by (simp add: py_range_def Let_def range_length_pos)

lemma chunk_loop_in_range:
  assumes "0 < chunk_size a" "\<forall>i\<in>set is. 0 \<le> i \<and> i < int (length c)"
  shows "chunk_loop a c is =
         concat (map (\<lambda>i. [StopTTFBMetrics,
           Yield (TTSAudioRawFrame (take (nat (chunk_size a)) (drop (nat i) c)) (sample_rate a) 1)]) is)"
  using assms(2)
proof (induction "is")
  case Nil
  then show ?case by simp
next
  case (Cons i rest)
  then have i: "0 \<le> i" "i < int (length c)" by simp_all
  from i assms(1) have "py_slice c i (i + chunk_size a) \<noteq> []"
    by (rule py_slice_chunk_nonempty)
  moreover from i assms(1) have "py_slice c i (i + chunk_size a) = take (nat (chunk_size a)) (drop (nat i) c)"
    by (rule py_slice_chunk)
  ultimately show ?case using Cons by (simp add: Let_def)
qed

lemma chunk_count_bound: "0 < n \<Longrightarrow> k < chunk_count l n \<Longrightarrow> k * n < l"
proof -
  assume n: "0 < n" and k: "k < chunk_count l n"
  then have l: "0 < l" by (auto simp: chunk_count_def split: if_splits)
  from k l have "k \<le> (l - 1) div n" by (simp add: chunk_count_def)
  then have "k * n \<le> (l - 1) div n * n" by simp
  also have "\<dots> \<le> l - 1" by simp
  finally show ?thesis using l by simp
qed

lemma chunk_count_cover: "0 < n \<Longrightarrow> l \<le> chunk_count l n * n"
proof (cases "l = 0")
  case True then show ?thesis by (simp add: chunk_count_def)
next
  case False
  assume n: "0 < n"
  have "l - 1 < ((l - 1) div n + 1) * n"
    using n by (metis dividend_less_div_times mult.commute mult_Suc Suc_eq_plus1)
  with False show ?thesis by (simp add: chunk_count_def)
qed

lemma chunk_count_ceiling:
  assumes "0 < n"
  shows "int (chunk_count l n) = \<lceil>real l / real n\<rceil>"
proof (cases "l = 0")
  case True
  then show ?thesis by (simp add: chunk_count_def)
next
  case False
  then have pos: "0 < chunk_count l n" by (simp add: chunk_count_def)
  then have "chunk_count l n - 1 < chunk_count l n" by simp
  with assms have "(chunk_count l n - 1) * n < l" by (rule chunk_count_bound)
  then have "real ((chunk_count l n - 1) * n) < real l" by (simp only: of_nat_less_iff)
  with assms pos have lo: "real (chunk_count l n) - 1 < real l / real n"
    by (simp add: pos_less_divide_eq of_nat_diff)
  from assms have "l \<le> chunk_count l n * n" by (rule chunk_count_cover)
  then have "real l \<le> real (chunk_count l n * n)" by (simp only: of_nat_le_iff)
  with assms have hi: "real l / real n \<le> real (chunk_count l n)"
    by (simp add: pos_divide_le_eq)
  from lo hi have "\<lceil>real l / real n\<rceil> = int (chunk_count l n)"
    by (intro ceiling_unique) simp_all
  then show ?thesis by simp
qed

lemma yielded_frames:
  "yielded (concat (map (\<lambda>i. [StopTTFBMetrics, Yield (f i)]) is)) = map f is"
  by (induction "is") simp_all

lemma pushed_frames:
  "pushed (concat (map (\<lambda>i. [StopTTFBMetrics, Yield (f i)]) is)) = []"
  by (induction "is") simp_all

lemma py_slice_from_drop: "0 \<le> i \<Longrightarrow> py_slice_from xs i = drop (nat i) xs"
  by (simp add: py_slice_from_def clamp_index_def min_def)

lemma py_slice_take: "py_slice xs 0 (int n) = take n xs"
  by (simp add: py_slice_def clamp_index_def Let_def min_def)

lemma chunk_loop_range:
  assumes "0 < chunk_size a"
  shows "yielded (chunk_loop a c (map (\<lambda>k. int k * chunk_size a) [0..<chunk_count (length c) (nat (chunk_size a))]))
         = audio_frames a c"
    and "pushed (chunk_loop a c (map (\<lambda>k. int k * chunk_size a) [0..<chunk_count (length c) (nat (chunk_size a))])) = []"
proof -
  let ?is = "map (\<lambda>k. int k * chunk_size a) [0..<chunk_count (length c) (nat (chunk_size a))]"
  have idx: "int k * chunk_size a = int (k * nat (chunk_size a))" for k
    using assms by simp
  have "\<forall>i\<in>set ?is. 0 \<le> i \<and> i < int (length c)"
  proof
    fix i assume "i \<in> set ?is"
    then obtain k where k: "k < chunk_count (length c) (nat (chunk_size a))" "i = int k * chunk_size a"
      by auto
    from assms k(1) have "k * nat (chunk_size a) < length c"
      by (intro chunk_count_bound) simp_all
    with k(2) show "0 \<le> i \<and> i < int (length c)"
      by (simp only: idx of_nat_0_le_iff of_nat_less_iff simp_thms)
  qed
  with assms have eq: "chunk_loop a c ?is = concat (map (\<lambda>i. [StopTTFBMetrics,
           Yield (TTSAudioRawFrame (take (nat (chunk_size a)) (drop (nat i) c)) (sample_rate a) 1)]) ?is)"
    by (rule chunk_loop_in_range)
  show "yielded (chunk_loop a c ?is) = audio_frames a c"
    unfolding eq yielded_frames audio_frames_def by (simp only: map_map comp_def idx nat_int)
  show "pushed (chunk_loop a c ?is) = []"
    unfolding eq by (rule pushed_frames)
qed

lemma try_body_ok:
  assumes "session a = Some s" "0 < chunk_size a"
  shows "yielded (fst (try_body a (Inr (Response 200 tr (Inr bytes))) text))
           = TTSStartedFrame # audio_frames a (content_of a bytes) @ [TTSStoppedFrame]"
    and "pushed (fst (try_body a (Inr (Response 200 tr (Inr bytes))) text)) = []"
    and "snd (try_body a (Inr (Response 200 tr (Inr bytes))) text) = None"
  using assms
  by (simp_all add: try_body_def Let_def content_of_def py_slice_from_drop py_range_pos
        yielded_append pushed_append chunk_loop_range del: length_drop)

lemma yielded_truncate [simp]: "yielded (fst (truncate_text text)) = []"
  by (simp add: truncate_text_def)

lemma pushed_truncate [simp]: "pushed (fst (truncate_text text)) = []"
  by (simp add: truncate_text_def)

lemma requests_truncate [simp]: "requests (fst (truncate_text text)) = []"
  by (simp add: truncate_text_def)

lemma yielded_run_tts:
  "yielded (snd (run_tts a env text)) =
     yielded (fst (try_body a env (snd (truncate_text text)))) @
     (case snd (try_body a env (snd (truncate_text text))) of None \<Rightarrow> []
      | Some e \<Rightarrow> [ErrorFrame (''TTS generation error: '' @ str_exn e)])"
  by (simp add: run_tts_def handler_def Let_def yielded_append case_prod_beta split: option.splits)

lemma pushed_run_tts:
  "pushed (snd (run_tts a env text)) =
     pushed (fst (try_body a env (snd (truncate_text text)))) @
     (case snd (try_body a env (snd (truncate_text text))) of None \<Rightarrow> []
      | Some e \<Rightarrow> [ErrorFrame (''TTS generation error: '' @ str_exn e)])"
  by (simp add: run_tts_def handler_def Let_def pushed_append case_prod_beta split: option.splits)

lemma requests_run_tts:
  "requests (snd (run_tts a env text)) = requests (fst (try_body a env (snd (truncate_text text))))"
  by (simp add: run_tts_def handler_def Let_def requests_append case_prod_beta split: option.splits)

lemma fst_run_tts: "fst (run_tts a env text) = a"
  by (simp add: run_tts_def Let_def case_prod_beta)

lemma concat_chunks:
  "concat (map (\<lambda>k. take n (drop (k * n) xs)) [0..<m]) = take (m * n) xs"
proof (induction m)
  case 0
  then show ?case by simp
next
  case (Suc m)
  have "take (m * n) xs @ take n (drop (m * n) xs) = take (m * n + n) xs"
    by (simp add: take_add)
  with Suc show ?case by (simp add: add.commute)
qed

lemma segments_audio_frames:
  "segments (TTSStartedFrame # audio_frames a c @ [TTSStoppedFrame]) =
     map (\<lambda>k. take (nat (chunk_size a)) (drop (k * nat (chunk_size a)) c))
       [0..<chunk_count (length c) (nat (chunk_size a))]"
  by (simp add: segments_def audio_frames_def comp_def)

lemma py_range_neg:
  assumes "n < 0"
  shows "py_range 0 (int l) n = Inr []"
  using assms by (simp add: py_range_def range_length_def)

lemma py_range_zero: "py_range 0 l 0 = Inl (ValueError ''range() arg 3 must not be zero'')"
  by (simp add: py_range_def)

lemma audio_frames_all_audio: "f \<in> set (audio_frames a c) \<Longrightarrow> is_audio f"
  by (auto simp: audio_frames_def)

lemma try_body_neg:
  assumes "session a = Some s" "chunk_size a < 0"
  shows "yielded (fst (try_body a (Inr (Response 200 tr (Inr bytes))) text))
           = [TTSStartedFrame, TTSStoppedFrame]"
    and "pushed (fst (try_body a (Inr (Response 200 tr (Inr bytes))) text)) = []"
    and "snd (try_body a (Inr (Response 200 tr (Inr bytes))) text) = None"
  using assms
  by (simp_all add: try_body_def Let_def py_range_neg yielded_append pushed_append)

lemma try_body_zero:
  assumes "session a = Some s" "chunk_size a = 0"
  shows "yielded (fst (try_body a (Inr (Response 200 tr (Inr bytes))) text)) = [TTSStartedFrame]"
    and "pushed (fst (try_body a (Inr (Response 200 tr (Inr bytes))) text)) = []"
    and "snd (try_body a (Inr (Response 200 tr (Inr bytes))) text)
           = Some (ValueError ''range() arg 3 must not be zero'')"
  using assms
  by (simp_all add: try_body_def Let_def py_range_zero yielded_append pushed_append)

lemma try_body_post_raises:
  assumes "session a = Some s"
  shows "yielded (fst (try_body a (Inl e) text)) = []"
    and "pushed (fst (try_body a (Inl e) text)) = []"
    and "snd (try_body a (Inl e) text) = Some e"
  using assms by (simp_all add: try_body_def Let_def)

lemma try_body_no_session:
  assumes "session a = None"
  shows "yielded (fst (try_body a env text)) = []"
    and "pushed (fst (try_body a env text)) = []"
    and "requests (fst (try_body a env text)) = []"
    and "\<exists>e. snd (try_body a env text) = Some e"
  using assms by (simp_all add: try_body_def Let_def)

lemma try_body_read_raises:
  assumes "session a = Some s"
  shows "yielded (fst (try_body a (Inr (Response 200 tr (Inl e))) text)) = []"
    and "pushed (fst (try_body a (Inr (Response 200 tr (Inl e))) text)) = []"
    and "snd (try_body a (Inr (Response 200 tr (Inl e))) text) = Some e"
  using assms by (simp_all add: try_body_def Let_def)

lemma try_body_text_raises:
  assumes "session a = Some s" "st \<noteq> 200"
  shows "yielded (fst (try_body a (Inr (Response st (Inl e) rr)) text)) = []"
    and "pushed (fst (try_body a (Inr (Response st (Inl e) rr)) text)) = []"
    and "snd (try_body a (Inr (Response st (Inl e) rr)) text) = Some e"
  using assms by (simp_all add: try_body_def Let_def)

lemma try_body_http_error:
  assumes "session a = Some s" "st \<noteq> 200"
  shows "yielded (fst (try_body a (Inr (Response st (Inr body) rr)) text))
           = [ErrorFrame (''Uplift HTTP TTS error: '' @ str_int st @ '' - '' @ body)]"
    and "pushed (fst (try_body a (Inr (Response st (Inr body) rr)) text))
           = [ErrorFrame (''Uplift HTTP TTS error: '' @ str_int st @ '' - '' @ body)]"
    and "snd (try_body a (Inr (Response st (Inr body) rr)) text) = None"
  using assms by (simp_all add: try_body_def Let_def)

lemma try_body_requests:
  assumes "session a = Some s"
  shows "requests (fst (try_body a env text)) = [(base_url a, request_payload a text, request_headers a)]"
proof -
  have loop: "requests (chunk_loop a c is) = []" for c "is"
    by (induction "is") (simp_all add: Let_def)
  from assms show ?thesis
    by (auto simp add: try_body_def Let_def requests_append loop
        split: sum.splits http_response.splits prod.splits)
qed

lemma logged_chunk_loop: "logged l (chunk_loop a c is) = []"
  by (induction "is") (simp_all add: Let_def)

lemma try_body_no_warning: "logged WARNING (fst (try_body a env text)) = []"
  by (auto simp add: try_body_def Let_def logged_append logged_chunk_loop
        split: option.splits sum.splits http_response.splits prod.splits)

lemma logged_warning_run_tts:
  "logged WARNING (snd (run_tts a env text)) = logged WARNING (fst (truncate_text text))"
  by (simp add: run_tts_def Let_def case_prod_beta logged_append try_body_no_warning handler_def
        split: option.splits)

lemma yielded_ok:
  assumes "session a = Some s"
  shows "yielded (snd (run_tts a (Inr (Response 200 tr (Inr bytes))) text)) =
           (if 0 < chunk_size a
            then TTSStartedFrame # audio_frames a (content_of a bytes) @ [TTSStoppedFrame]
            else if chunk_size a = 0
            then [TTSStartedFrame,
                  ErrorFrame ''TTS generation error: range() arg 3 must not be zero'']
            else [TTSStartedFrame, TTSStoppedFrame])"
proof -
  consider "0 < chunk_size a" | "chunk_size a = 0" | "chunk_size a < 0" by linarith
  then show ?thesis
  proof cases
    case 1
    with assms show ?thesis by (simp add: yielded_run_tts try_body_ok)
  next
    case 2
    with assms show ?thesis by (simp add: yielded_run_tts try_body_zero)
  next
    case 3
    with assms show ?thesis by (simp add: yielded_run_tts try_body_neg)
  qed
qed

lemma failed_single_error:
  assumes "session a = Some s" "\<not> responded_ok env"
  shows "\<exists>m. yielded (snd (run_tts a env text)) = [ErrorFrame m] \<and>
             pushed (snd (run_tts a env text)) = [ErrorFrame m]"
proof (cases env)
  case (Inl e)
  with assms(1) show ?thesis
    by (simp add: yielded_run_tts pushed_run_tts try_body_post_raises)
next
  case (Inr r)
  obtain st tr rr where r: "r = Response st tr rr" by (cases r)
  show ?thesis
  proof (cases "st = 200")
    case True
    with assms(2) Inr r obtain e where "rr = Inl e"
      by (cases rr) (simp_all add: responded_ok_def)
    with assms(1) Inr r True show ?thesis
      by (simp add: yielded_run_tts pushed_run_tts try_body_read_raises)
  next
    case False
    with assms(1) Inr r show ?thesis
      by (cases tr)
         (simp_all add: yielded_run_tts pushed_run_tts try_body_text_raises try_body_http_error)
  qed
qed

lemma pushed_ok:
  assumes "session a = Some s" "chunk_size a \<noteq> 0"
  shows "pushed (snd (run_tts a (Inr (Response 200 tr (Inr bytes))) text)) = []"
proof (cases "0 < chunk_size a")
  case True
  with assms show ?thesis by (simp add: pushed_run_tts try_body_ok)
next
  case False
  with assms have "chunk_size a < 0" by simp
  with assms show ?thesis by (simp add: pushed_run_tts try_body_neg)
qed

lemma no_session_single_error:
  assumes "session a = None"
  shows "\<exists>m. yielded (snd (run_tts a env text)) = [ErrorFrame m]"
proof -
  from assms obtain e where "snd (try_body a env (snd (truncate_text text))) = Some e"
    using try_body_no_session(4) by blast
  with assms show ?thesis
    by (simp add: yielded_run_tts try_body_no_session)
qed

lemma stopped_last_iff:
  "last (yielded (snd (run_tts a env text))) = TTSStoppedFrame \<longleftrightarrow> succeeds_fully a env"
proof (cases "session a")
  case None
  with no_session_single_error obtain m where "yielded (snd (run_tts a env text)) = [ErrorFrame m]"
    by blast
  with None show ?thesis by (simp add: succeeds_fully_def)
next
  case (Some s)
  show ?thesis
  proof (cases "responded_ok env")
    case False
    with Some obtain m where "yielded (snd (run_tts a env text)) = [ErrorFrame m]"
      using failed_single_error by blast
    with False show ?thesis by (simp add: succeeds_fully_def)
  next
    case True
    then obtain r where env: "env = Inr r" by (cases env) (simp_all add: responded_ok_def)
    obtain st tr rr where r: "r = Response st tr rr" by (cases r)
    from True env r have st: "st = 200" by (simp add: responded_ok_def)
    from True env r obtain bytes where rr: "rr = Inr bytes"
      by (cases rr) (simp_all add: responded_ok_def)
    from Some True show ?thesis
      unfolding env r st rr
      by (simp add: yielded_ok succeeds_fully_def)
  qed
qed

lemma truncate_text_take: "snd (truncate_text text) = take 2500 text"
proof -
  have "py_slice text 0 2500 = take 2500 text"
    using py_slice_take [of "text" 2500] by simp
  then show ?thesis by (simp add: truncate_text_def)
qed

lemma truncate_text_warning:
  "logged WARNING (fst (truncate_text text)) =
     (if 2500 < length text
      then [''Text length ('' @ str_int (int (length text)) @ '') exceeds Uplift'' @
            [CHR 0x27] @ ''s maximum of 2500 characters. Truncating...'']
      else [])"
  by (simp add: truncate_text_def)

lemma truncate_text_no_error: "logged ERROR (fst (truncate_text text)) = []"
  by (simp add: truncate_text_def)

lemma segments_ok:
  assumes "session a = Some s" "0 < chunk_size a"
  shows "segments (yielded (snd (run_tts a (Inr (Response 200 tr (Inr bytes))) text))) =
           map (\<lambda>k. take (nat (chunk_size a)) (drop (k * nat (chunk_size a)) (content_of a bytes)))
             [0..<chunk_count (length (content_of a bytes)) (nat (chunk_size a))]"
  using assms by (simp only: yielded_ok if_True segments_audio_frames)

lemma concat_all_chunks:
  assumes "0 < n"
  shows "concat (map (\<lambda>k. take n (drop (k * n) xs)) [0..<chunk_count (length xs) n]) = xs"
  using chunk_count_cover [OF assms, of "length xs"] by (simp add: concat_chunks)

lemma try_body_raised:
  assumes "snd (try_body a env text) = Some e"
  shows "pushed (fst (try_body a env text)) = []"
    and "yielded (fst (try_body a env text)) = [] \<or>
         yielded (fst (try_body a env text)) = [TTSStartedFrame]"
  using assms
  by (auto simp add: try_body_def Let_def yielded_append pushed_append
      split: option.splits sum.splits if_splits prod.splits)

lemma try_body_raises_iff:
  "snd (try_body a env text) \<noteq> None \<longleftrightarrow>
     session a = None \<or>
     (case env of
        Inl e \<Rightarrow> True
      | Inr r \<Rightarrow> if status r \<noteq> 200 then isl (text_result r)
                else isl (read_result r) \<or> chunk_size a = 0)"
  by (auto simp add: try_body_def Let_def py_range_def
      split: option.splits sum.splits if_splits prod.splits)

lemma init_borrowed:
  assumes "init args cs nm fresh = Inr (b, t)" "arg_aiohttp_session args = Some s"
  shows "session b = Some s" and "\<not> created_session b"
  using assms
  by (auto simp add: init_def Let_def set_voice_def split: if_splits option.splits)

lemma init_owned:
  assumes "init args cs nm fresh = Inr (b, t)" "arg_aiohttp_session args = None"
  shows "session b = Some fresh" and "created_session b"
  using assms
  by (auto simp add: init_def Let_def set_voice_def split: if_splits option.splits)

lemma init_output_format:
  assumes "init args cs nm fresh = Inr (a, t)"
  shows "output_format (settings a) =
           py_or (params_output_format (case arg_params args of None \<Rightarrow> InputParams | Some p \<Rightarrow> p))
                 (arg_output_format args)"
  using assms
  by (auto simp add: init_def Let_def set_voice_def split: if_splits option.splits)

lemma init_without_params_output_format:
  assumes "init args cs nm fresh = Inr (a, t)" "arg_params args = None"
  shows "output_format (settings a) = ''WAV_22050_16''"
  using init_output_format [OF assms(1)] assms(2) by (simp add: InputParams_def)

lemma init_params_output_format:
  assumes "init args cs nm fresh = Inr (a, t)" "arg_params args = Some p"
    "params_output_format p = Some f" "f \<noteq> []"
  shows "output_format (settings a) = f"
  using init_output_format [OF assms(1)] assms(2-4) by simp

lemma init_example: "\<exists>t. init (default_args ''sk_test'') 4 ''UpliftHttpTTSService#0'' 0 = Inr (example_adapter, t)"
  by (simp add: init_def default_args_def Let_def set_voice_def example_adapter_def InputParams_def)

section \<open>Order of the marker frames\<close>

text \<open>
  C1, as stated, fails: a request is issued, the response has status 503, and the only
  frame yielded is the error frame, so the first frame is not the started marker.
\<close>

theorem started_first_counterexample:
  "requests (snd (run_tts example_adapter example_503 ''hello'')) \<noteq> [] \<and>
   yielded (snd (run_tts example_adapter example_503 ''hello'')) =
     [ErrorFrame ''Uplift HTTP TTS error: 503 - server overloaded''] \<and>
   hd (yielded (snd (run_tts example_adapter example_503 ''hello''))) \<noteq> TTSStartedFrame"
  by (simp add: run_tts_def try_body_def truncate_text_def handler_def Let_def
        example_adapter_def example_503_def str_int_def str_nat.simps digit_char_def)

text \<open>
  C1, amended. For every call that issues a request: when the response has status 200
  and its body is read, the started marker is the first frame yielded and occurs only
  there; otherwise (the request raises, the status is not 200, or reading raises) no
  started marker is yielded and the only frame is one error frame. The stopped marker is
  the last frame yielded if and only if the call succeeds fully, which is the case if and
  only if no error frame is yielded.
\<close>

theorem started_first_stopped_last:
  assumes "session a = Some s"
  shows "(responded_ok env \<longrightarrow>
            (\<exists>rest. yielded (snd (run_tts a env text)) = TTSStartedFrame # rest \<and>
                    TTSStartedFrame \<notin> set rest))
       \<and> (\<not> responded_ok env \<longrightarrow>
            (\<exists>m. yielded (snd (run_tts a env text)) = [ErrorFrame m]))
       \<and> (last (yielded (snd (run_tts a env text))) = TTSStoppedFrame
            \<longleftrightarrow> succeeds_fully a env)
       \<and> (succeeds_fully a env
            \<longleftrightarrow> (\<forall>f \<in> set (yielded (snd (run_tts a env text))). \<not> is_error f))"
proof (cases "responded_ok env")
  case False
  with assms obtain m where m: "yielded (snd (run_tts a env text)) = [ErrorFrame m]"
    using failed_single_error by blast
  with False show ?thesis by (simp add: succeeds_fully_def)
next
  case True
  then obtain r where env: "env = Inr r" by (cases env) (simp_all add: responded_ok_def)
  obtain st tr rr where r: "r = Response st tr rr" by (cases r)
  from True env r have st: "st = 200" by (simp add: responded_ok_def)
  from True env r obtain bytes where rr: "rr = Inr bytes"
    by (cases rr) (simp_all add: responded_ok_def)
  have noaudio: "TTSStartedFrame \<notin> set (audio_frames a c)"
    "\<forall>f\<in>set (audio_frames a c). \<not> is_error f" for c
    by (auto simp: audio_frames_def)
  from assms True show ?thesis
    unfolding env r st rr
    by (simp add: yielded_ok succeeds_fully_def noaudio)
qed

theorem started_first_stopped_last_witness:
  "session example_adapter = Some 0 \<and>
   responded_ok example_ok \<and> succeeds_fully example_adapter example_ok \<and>
   hd (yielded (snd (run_tts example_adapter example_ok ''hello''))) = TTSStartedFrame \<and>
   last (yielded (snd (run_tts example_adapter example_ok ''hello''))) = TTSStoppedFrame \<and>
   \<not> responded_ok example_503 \<and>
   length (yielded (snd (run_tts example_adapter example_503 ''hello''))) = 1 \<and>
   last (yielded (snd (run_tts example_adapter example_503 ''hello''))) \<noteq> TTSStoppedFrame"
proof -
  have s: "session example_adapter = Some 0" by (simp add: example_adapter_def)
  have ok: "responded_ok example_ok" by (simp add: responded_ok_def example_ok_def)
  have full: "succeeds_fully example_adapter example_ok"
    using ok by (simp add: succeeds_fully_def example_adapter_def)
  have bad: "\<not> responded_ok example_503" by (simp add: responded_ok_def example_503_def)
  then have nofull: "\<not> succeeds_fully example_adapter example_503"
    by (simp add: succeeds_fully_def)
  from started_first_stopped_last [OF s, of example_ok "''hello''"] ok full
  have 1: "hd (yielded (snd (run_tts example_adapter example_ok ''hello''))) = TTSStartedFrame"
    and 2: "last (yielded (snd (run_tts example_adapter example_ok ''hello''))) = TTSStoppedFrame"
    by auto
  from started_first_stopped_last [OF s, of example_503 "''hello''"] bad nofull
  have 3: "length (yielded (snd (run_tts example_adapter example_503 ''hello''))) = 1"
    and 4: "last (yielded (snd (run_tts example_adapter example_503 ''hello''))) \<noteq> TTSStoppedFrame"
    by auto
  from s ok full bad 1 2 3 4 show ?thesis by simp
qed

section \<open>Responses with a status other than 200\<close>

text \<open>
  C2, as stated, fails: the response has status 500 and reading its body as text raises.
  The exception is caught by the \<^verbatim>\<open>except\<close> clause, and the one error frame, yielded
  and pushed, carries \<^verbatim>\<open>"TTS generation error: bad body"\<close>, which does not contain the
  status code.
\<close>

theorem non_200_message_counterexample:
  "requests (snd (run_tts example_adapter example_500_unreadable ''hello'')) \<noteq> [] \<and>
   status (Response 500 (Inl (ClientError ''bad body'')) (Inr [])) \<noteq> 200 \<and>
   yielded (snd (run_tts example_adapter example_500_unreadable ''hello'')) =
     [ErrorFrame ''TTS generation error: bad body''] \<and>
   pushed (snd (run_tts example_adapter example_500_unreadable ''hello'')) =
     [ErrorFrame ''TTS generation error: bad body''] \<and>
   str_int 500 = ''500'' \<and>
   \<not> sublist ''500'' ''TTS generation error: bad body''"
  by (simp add: run_tts_def try_body_def truncate_text_def handler_def Let_def
        example_adapter_def example_500_unreadable_def str_int_def str_nat.simps digit_char_def
        sublist_Cons_right prefix_Cons)

text \<open>
  C2, amended. For every call whose response has a status other than 200, exactly one
  frame is yielded and it is an error frame (so no audio frame and no stopped marker),
  and \<^verbatim>\<open>push_error\<close> is called exactly once, with a frame of the same message. When
  the body of the response is read as text, that message is
  \<^verbatim>\<open>"Uplift HTTP TTS error: <status> - <body>"\<close>, which contains the status code and the
  body text; when reading the body raises, the message is \<^verbatim>\<open>"TTS generation error: "\<close>
  followed by the text of the exception.
\<close>

theorem non_200_single_error:
  assumes "session a = Some s" "status r \<noteq> 200"
  shows "\<exists>m. yielded (snd (run_tts a (Inr r) text)) = [ErrorFrame m] \<and>
             pushed (snd (run_tts a (Inr r) text)) = [ErrorFrame m] \<and>
             (\<forall>body. text_result r = Inr body \<longrightarrow>
                m = ''Uplift HTTP TTS error: '' @ str_int (status r) @ '' - '' @ body \<and>
                sublist (str_int (status r)) m \<and> sublist body m) \<and>
             (\<forall>e. text_result r = Inl e \<longrightarrow> m = ''TTS generation error: '' @ str_exn e)"
proof -
  obtain st tr rr where r: "r = Response st tr rr" by (cases r)
  with assms(2) have st: "st \<noteq> 200" by simp
  show ?thesis
  proof (cases tr)
    case (Inl e)
    with assms(1) st r show ?thesis
      by (simp add: yielded_run_tts pushed_run_tts try_body_text_raises)
  next
    case (Inr body)
    have "sublist (str_int st) (''Uplift HTTP TTS error: '' @ str_int st @ '' - '' @ body)"
      by (rule sublist_appendI)
    moreover have "sublist body (''Uplift HTTP TTS error: '' @ str_int st @ '' - '' @ body)"
      by (metis sublist_order.order_refl sublist_append_leftI append_assoc)
    ultimately show ?thesis using assms(1) st r Inr
      by (simp add: yielded_run_tts pushed_run_tts try_body_http_error)
  qed
qed

theorem non_200_single_error_witness:
  "session example_adapter = Some 0 \<and>
   status (Response 503 (Inr ''server overloaded'') (Inr [])) \<noteq> 200 \<and>
   yielded (snd (run_tts example_adapter example_503 ''hello'')) =
     [ErrorFrame (''Uplift HTTP TTS error: '' @ str_int 503 @ '' - server overloaded'')] \<and>
   pushed (snd (run_tts example_adapter example_503 ''hello'')) =
     [ErrorFrame (''Uplift HTTP TTS error: '' @ str_int 503 @ '' - server overloaded'')] \<and>
   status (Response 500 (Inl (ClientError ''bad body'')) (Inr [])) \<noteq> 200 \<and>
   yielded (snd (run_tts example_adapter example_500_unreadable ''hello'')) =
     [ErrorFrame ''TTS generation error: bad body''] \<and>
   pushed (snd (run_tts example_adapter example_500_unreadable ''hello'')) =
     [ErrorFrame ''TTS generation error: bad body'']"
proof -
  have s: "session example_adapter = Some 0" by (simp add: example_adapter_def)
  have st: "status (Response 503 (Inr ''server overloaded'') (Inr [])) \<noteq> 200" by simp
  have st': "status (Response 500 (Inl (ClientError ''bad body'')) (Inr [])) \<noteq> 200" by simp
  from non_200_single_error [OF s st, of "''hello''"]
  have 1: "yielded (snd (run_tts example_adapter example_503 ''hello'')) =
     [ErrorFrame (''Uplift HTTP TTS error: '' @ str_int 503 @ '' - server overloaded'')] \<and>
   pushed (snd (run_tts example_adapter example_503 ''hello'')) =
     [ErrorFrame (''Uplift HTTP TTS error: '' @ str_int 503 @ '' - server overloaded'')]"
    by (auto simp add: example_503_def)
  from non_200_single_error [OF s st', of "''hello''"]
  have 2: "yielded (snd (run_tts example_adapter example_500_unreadable ''hello'')) =
     [ErrorFrame ''TTS generation error: bad body''] \<and>
   pushed (snd (run_tts example_adapter example_500_unreadable ''hello'')) =
     [ErrorFrame ''TTS generation error: bad body'']"
    by (auto simp add: example_500_unreadable_def)
  from s st st' 1 2 show ?thesis by blast
qed

section \<open>Truncation of the text\<close>

text \<open>
  C4. For every input text, the call issues exactly one request and the \<^verbatim>\<open>text\<close> field
  of its JSON body is the first \<open>min (length text) 2500\<close> characters of the input: the
  input itself, with no warning, when it has at most 2500 characters, and otherwise its
  first 2500 characters, of length exactly 2500, with one warning-level line logged; the
  truncation logs nothing at error level.
\<close>

theorem request_text_truncated:
  assumes "session a = Some s"
  shows "\<exists>payload.
           requests (snd (run_tts a env text)) = [(base_url a, payload, request_headers a)] \<and>
           map_of payload ''text'' = Some (take (min (length text) 2500) text) \<and>
           (length text \<le> 2500 \<longrightarrow>
              map_of payload ''text'' = Some text \<and>
              logged WARNING (snd (run_tts a env text)) = []) \<and>
           (2500 < length text \<longrightarrow>
              (\<exists>field w. map_of payload ''text'' = Some field \<and> length field = 2500 \<and>
                         field = take 2500 text \<and>
                         logged WARNING (snd (run_tts a env text)) = [w]) \<and>
              logged ERROR (fst (truncate_text text)) = [])"
proof -
  have "take (min (length text) 2500) text = take 2500 text"
    by (simp add: min_def)
  with assms show ?thesis
    by (simp add: requests_run_tts try_body_requests truncate_text_take request_payload_def
          logged_warning_run_tts truncate_text_warning truncate_text_no_error)
qed

theorem request_text_truncated_witness:
  "session example_adapter = Some 0 \<and>
   2500 < length (replicate 2600 CHR ''a'') \<and>
   (\<exists>url payload headers.
      requests (snd (run_tts example_adapter example_ok (replicate 2600 CHR ''a''))) =
        [(url, payload, headers)] \<and>
      map_of payload ''text'' = Some (replicate 2500 CHR ''a'')) \<and>
   length (logged WARNING (snd (run_tts example_adapter example_ok (replicate 2600 CHR ''a'')))) = 1 \<and>
   length ''hello'' \<le> 2500 \<and>
   (\<exists>url payload headers.
      requests (snd (run_tts example_adapter example_ok ''hello'')) = [(url, payload, headers)] \<and>
      map_of payload ''text'' = Some ''hello'') \<and>
   logged WARNING (snd (run_tts example_adapter example_ok ''hello'')) = []"
proof -
  have s: "session example_adapter = Some 0" by (simp add: example_adapter_def)
  have l: "2500 < length (replicate 2600 CHR ''a'')" by simp
  have l': "length ''hello'' \<le> 2500" by simp
  from request_text_truncated [OF s, of example_ok "replicate 2600 CHR ''a''"] l
  obtain payload w where
    "requests (snd (run_tts example_adapter example_ok (replicate 2600 CHR ''a''))) =
       [(base_url example_adapter, payload, request_headers example_adapter)]"
    "map_of payload ''text'' = Some (take 2500 (replicate 2600 CHR ''a''))"
    "logged WARNING (snd (run_tts example_adapter example_ok (replicate 2600 CHR ''a''))) = [w]"
    by auto
  then have 1: "(\<exists>url payload headers.
      requests (snd (run_tts example_adapter example_ok (replicate 2600 CHR ''a''))) =
        [(url, payload, headers)] \<and>
      map_of payload ''text'' = Some (replicate 2500 CHR ''a'')) \<and>
   length (logged WARNING (snd (run_tts example_adapter example_ok (replicate 2600 CHR ''a'')))) = 1"
    by simp
  from request_text_truncated [OF s, of example_ok "''hello''"] l'
  obtain payload' where
    "requests (snd (run_tts example_adapter example_ok ''hello'')) =
       [(base_url example_adapter, payload', request_headers example_adapter)]"
    "map_of payload' ''text'' = Some ''hello''"
    "logged WARNING (snd (run_tts example_adapter example_ok ''hello'')) = []"
    by auto
  then have 2: "(\<exists>url payload headers.
      requests (snd (run_tts example_adapter example_ok ''hello'')) = [(url, payload, headers)] \<and>
      map_of payload ''text'' = Some ''hello'') \<and>
   logged WARNING (snd (run_tts example_adapter example_ok ''hello'')) = []"
    by simp
  from s l l' 1 2 show ?thesis by blast
qed

section \<open>Audio segments\<close>

text \<open>
  C5. For every call with a session, a positive chunk size and a status-200 response
  whose body is read: if the output format starts with \<^verbatim>\<open>WAV_\<close>, the audio segments
  yielded, concatenated in order, are the response bytes without their first 44, and the
  \<open>k\<close>-th segment is cut from the response at offset \<open>44 + k * chunk_size\<close>, so no
  segment holds a byte of the first 44 positions; for every other format the
  concatenation is the whole response.
\<close>

theorem segments_reproduce_audio:
  assumes "session a = Some s" "0 < chunk_size a"
  shows "(prefix ''WAV_'' (output_format (settings a)) \<longrightarrow>
            concat (segments (yielded (snd (run_tts a (Inr (Response 200 tr (Inr bytes))) text))))
              = drop 44 bytes \<and>
            (\<forall>k < length (segments (yielded (snd (run_tts a (Inr (Response 200 tr (Inr bytes))) text)))).
               segments (yielded (snd (run_tts a (Inr (Response 200 tr (Inr bytes))) text))) ! k
                 = take (nat (chunk_size a)) (drop (44 + k * nat (chunk_size a)) bytes)))
       \<and> (\<not> prefix ''WAV_'' (output_format (settings a)) \<longrightarrow>
            concat (segments (yielded (snd (run_tts a (Inr (Response 200 tr (Inr bytes))) text))))
              = bytes)"
proof -
  from assms(2) have n: "0 < nat (chunk_size a)" by simp
  show ?thesis
    unfolding segments_ok [OF assms] concat_all_chunks [OF n]
    by (simp add: content_of_def add.commute)
qed

theorem segments_reproduce_audio_witness:
  "session example_adapter = Some 0 \<and> 0 < chunk_size example_adapter \<and>
   prefix ''WAV_'' (output_format (settings example_adapter)) \<and>
   concat (segments (yielded (snd (run_tts example_adapter example_ok ''hello''))))
     = [1, 2, 3, 4, 5, 6, 7, 8, 9] \<and>
   session example_mp3_adapter = Some 0 \<and> 0 < chunk_size example_mp3_adapter \<and>
   \<not> prefix ''WAV_'' (output_format (settings example_mp3_adapter)) \<and>
   concat (segments (yielded (snd (run_tts example_mp3_adapter example_ok ''hello''))))
     = example_body"
proof -
  have s: "session example_adapter = Some 0" by (simp add: example_adapter_def)
  have c: "0 < chunk_size example_adapter" by (simp add: example_adapter_def)
  have p: "prefix ''WAV_'' (output_format (settings example_adapter))"
    by (simp add: example_adapter_def)
  from segments_reproduce_audio [OF s c, of "Inr []" example_body "''hello''"] p
  have 1: "concat (segments (yielded (snd (run_tts example_adapter example_ok ''hello''))))
          = [1, 2, 3, 4, 5, 6, 7, 8, 9]"
    by (simp add: example_ok_def example_body_def)
  have s': "session example_mp3_adapter = Some 0"
    by (simp add: example_mp3_adapter_def set_output_format_def example_adapter_def)
  have c': "0 < chunk_size example_mp3_adapter"
    by (simp add: example_mp3_adapter_def set_output_format_def example_adapter_def)
  have p': "\<not> prefix ''WAV_'' (output_format (settings example_mp3_adapter))"
    by (simp add: example_mp3_adapter_def set_output_format_def)
  from segments_reproduce_audio [OF s' c', of "Inr []" example_body "''hello''"] p'
  have 2: "concat (segments (yielded (snd (run_tts example_mp3_adapter example_ok ''hello''))))
          = example_body"
    by (simp add: example_ok_def)
  from s c p 1 s' c' p' 2 show ?thesis by blast
qed

text \<open>
  C6. For every non-empty audio content of length \<open>L\<close> and every chunk size \<open>N > 0\<close>,
  the call yields exactly \<open>\<lceil>L / N\<rceil>\<close> audio segments; the \<open>k\<close>-th segment is the
  slice of the content of at most \<open>N\<close> bytes at offset \<open>k * N\<close>, so that the segments
  are consecutive, do not overlap and together are the content; no segment is empty,
  and every segment but the last has length exactly \<open>N\<close>.
\<close>

theorem chunking:
  assumes "session a = Some s" "0 < chunk_size a" "content_of a bytes \<noteq> []"
  shows "int (length (segments (yielded (snd (run_tts a (Inr (Response 200 tr (Inr bytes))) text)))))
           = \<lceil>real (length (content_of a bytes)) / real_of_int (chunk_size a)\<rceil>
       \<and> concat (segments (yielded (snd (run_tts a (Inr (Response 200 tr (Inr bytes))) text))))
           = content_of a bytes
       \<and> (\<forall>k < length (segments (yielded (snd (run_tts a (Inr (Response 200 tr (Inr bytes))) text)))).
            segments (yielded (snd (run_tts a (Inr (Response 200 tr (Inr bytes))) text))) ! k
              = take (nat (chunk_size a)) (drop (k * nat (chunk_size a)) (content_of a bytes))
          \<and> segments (yielded (snd (run_tts a (Inr (Response 200 tr (Inr bytes))) text))) ! k \<noteq> []
          \<and> length (segments (yielded (snd (run_tts a (Inr (Response 200 tr (Inr bytes))) text))) ! k)
              \<le> nat (chunk_size a)
          \<and> (Suc k < length (segments (yielded (snd (run_tts a (Inr (Response 200 tr (Inr bytes))) text))))
              \<longrightarrow> length (segments (yielded (snd (run_tts a (Inr (Response 200 tr (Inr bytes))) text))) ! k)
                    = nat (chunk_size a)))"
proof -
  let ?n = "nat (chunk_size a)"
  let ?c = "content_of a bytes"
  let ?m = "chunk_count (length ?c) ?n"
  from assms(2) have n: "0 < ?n" by simp
  have count: "int ?m = \<lceil>real (length ?c) / real_of_int (chunk_size a)\<rceil>"
    using chunk_count_ceiling [OF n, of "length ?c"] assms(2) by simp
  have each: "take ?n (drop (k * ?n) ?c) \<noteq> [] \<and>
              (Suc k < ?m \<longrightarrow> length (take ?n (drop (k * ?n) ?c)) = ?n)" if "k < ?m" for k
  proof
    from n that have "k * ?n < length ?c" by (rule chunk_count_bound)
    with n show "take ?n (drop (k * ?n) ?c) \<noteq> []" by simp
    show "Suc k < ?m \<longrightarrow> length (take ?n (drop (k * ?n) ?c)) = ?n"
    proof
      assume "Suc k < ?m"
      with n have "Suc k * ?n < length ?c" by (rule chunk_count_bound)
      then show "length (take ?n (drop (k * ?n) ?c)) = ?n" by simp
    qed
  qed
  show ?thesis
    unfolding segments_ok [OF assms(1,2)] concat_all_chunks [OF n]
    using count each by simp
qed

theorem chunking_witness:
  "session example_adapter = Some 0 \<and> 0 < chunk_size example_adapter \<and>
   content_of example_adapter example_body = [1, 2, 3, 4, 5, 6, 7, 8, 9] \<and>
   int (length (segments (yielded (snd (run_tts example_adapter example_ok ''hello''))))) = \<lceil>9 / (4::real)\<rceil> \<and>
   concat (segments (yielded (snd (run_tts example_adapter example_ok ''hello'')))) = [1, 2, 3, 4, 5, 6, 7, 8, 9]"
proof -
  have s: "session example_adapter = Some 0" by (simp add: example_adapter_def)
  have c: "0 < chunk_size example_adapter" by (simp add: example_adapter_def)
  have b: "content_of example_adapter example_body = [1, 2, 3, 4, 5, 6, 7, 8, 9]"
    by (simp add: content_of_def example_adapter_def example_body_def)
  then have ne: "content_of example_adapter example_body \<noteq> []" by simp
  from chunking [OF s c ne, of "Inr []" "''hello''"]
  have "int (length (segments (yielded (snd (run_tts example_adapter example_ok ''hello'')))))
          = \<lceil>real (length (content_of example_adapter example_body)) / real_of_int (chunk_size example_adapter)\<rceil>"
    and "concat (segments (yielded (snd (run_tts example_adapter example_ok ''hello''))))
          = content_of example_adapter example_body"
    by (simp_all add: example_ok_def)
  with s c b show ?thesis by (simp add: example_adapter_def)
qed

section \<open>Exceptions inside the call\<close>

text \<open>
  C7. Whenever the body of the \<^verbatim>\<open>try\<close> statement raises an exception \<open>e\<close> (the session
  is missing, the request raises, reading the response raises, or \<^verbatim>\<open>range\<close> rejects
  the chunk size), \<^verbatim>\<open>push_error\<close> is called exactly once and exactly one error frame is
  yielded, as the last frame, both with the message \<^verbatim>\<open>"TTS generation error: "\<close>
  followed by \<open>str e\<close>; no stopped marker is yielded; the adapter is left as it was,
  and a later call on it that meets the conditions of success ends with the stopped
  marker.
\<close>

theorem exception_reported:
  assumes "snd (try_body a env (snd (truncate_text text))) = Some e"
  shows "pushed (snd (run_tts a env text)) = [ErrorFrame (''TTS generation error: '' @ str_exn e)]
       \<and> filter is_error (yielded (snd (run_tts a env text)))
           = [ErrorFrame (''TTS generation error: '' @ str_exn e)]
       \<and> last (yielded (snd (run_tts a env text)))
           = ErrorFrame (''TTS generation error: '' @ str_exn e)
       \<and> TTSStoppedFrame \<notin> set (yielded (snd (run_tts a env text)))
       \<and> fst (run_tts a env text) = a
       \<and> (\<forall>env' text'. succeeds_fully a env' \<longrightarrow>
            last (yielded (snd (run_tts (fst (run_tts a env text)) env' text'))) = TTSStoppedFrame)"
proof -
  from try_body_raised(2) [OF assms] assms
  have "filter is_error (yielded (snd (run_tts a env text)))
           = [ErrorFrame (''TTS generation error: '' @ str_exn e)]
       \<and> last (yielded (snd (run_tts a env text)))
           = ErrorFrame (''TTS generation error: '' @ str_exn e)
       \<and> TTSStoppedFrame \<notin> set (yielded (snd (run_tts a env text)))"
    by (auto simp add: yielded_run_tts)
  moreover from try_body_raised(1) [OF assms] assms
  have "pushed (snd (run_tts a env text)) = [ErrorFrame (''TTS generation error: '' @ str_exn e)]"
    by (simp add: pushed_run_tts)
  ultimately show ?thesis
    by (simp add: fst_run_tts stopped_last_iff)
qed

theorem exception_reported_witness:
  "snd (try_body example_adapter example_post_fails (snd (truncate_text ''hello'')))
     = Some (ClientError ''Cannot connect to host api.upliftai.org:443'') \<and>
   yielded (snd (run_tts example_adapter example_post_fails ''hello''))
     = [ErrorFrame ''TTS generation error: Cannot connect to host api.upliftai.org:443''] \<and>
   pushed (snd (run_tts example_adapter example_post_fails ''hello''))
     = [ErrorFrame ''TTS generation error: Cannot connect to host api.upliftai.org:443''] \<and>
   succeeds_fully example_adapter example_ok \<and>
   last (yielded (snd (run_tts (fst (run_tts example_adapter example_post_fails ''hello''))
                    example_ok ''again''))) = TTSStoppedFrame"
proof -
  have r: "snd (try_body example_adapter example_post_fails (snd (truncate_text ''hello'')))
     = Some (ClientError ''Cannot connect to host api.upliftai.org:443'')"
    by (simp add: try_body_def example_adapter_def example_post_fails_def Let_def)
  have y: "yielded (fst (try_body example_adapter example_post_fails (snd (truncate_text ''hello'')))) = []"
    by (simp add: try_body_def example_adapter_def example_post_fails_def Let_def)
  have f: "succeeds_fully example_adapter example_ok"
    by (simp add: succeeds_fully_def responded_ok_def example_adapter_def example_ok_def)
  note rep = exception_reported [OF r]
  from rep have p: "pushed (snd (run_tts example_adapter example_post_fails ''hello''))
     = [ErrorFrame ''TTS generation error: Cannot connect to host api.upliftai.org:443'']"
    by simp
  from rep f have l: "last (yielded (snd (run_tts (fst (run_tts example_adapter example_post_fails ''hello''))
                    example_ok ''again''))) = TTSStoppedFrame"
    by blast
  from r y have e: "yielded (snd (run_tts example_adapter example_post_fails ''hello''))
     = [ErrorFrame ''TTS generation error: Cannot connect to host api.upliftai.org:443'']"
    by (simp add: yielded_run_tts)
  from r e p f l show ?thesis by blast
qed

section \<open>Cleanup\<close>

text \<open>
  C8. \<^verbatim>\<open>cleanup\<close> closes the session exactly when the adapter created it and still
  holds it, and then clears the reference; in every other state it does nothing. A
  second call straight after the first does nothing, so a closed session is not closed
  again. An adapter that did not create its session closes nothing; in particular an
  adapter constructed with a session supplied by the caller keeps that session and
  \<^verbatim>\<open>cleanup\<close> leaves it alone.
\<close>

theorem cleanup_idempotent:
  "(created_session a \<and> session a = Some s \<longrightarrow>
      closed (snd (cleanup a)) = [s] \<and> fst (cleanup a) = a\<lparr>session := None\<rparr>)
   \<and> (\<not> (created_session a \<and> session a \<noteq> None) \<longrightarrow> cleanup a = (a, []))
   \<and> cleanup (fst (cleanup a)) = (fst (cleanup a), [])
   \<and> (\<not> created_session a \<longrightarrow> closed (snd (cleanup a)) = [])
   \<and> (init args cs nm fresh = Inr (b, t) \<and> arg_aiohttp_session args = Some s' \<longrightarrow>
        session b = Some s' \<and> cleanup b = (b, []))"
proof -
  have "session b = Some s' \<and> cleanup b = (b, [])"
    if "init args cs nm fresh = Inr (b, t)" "arg_aiohttp_session args = Some s'"
    using init_borrowed [OF that] by (simp add: cleanup_def)
  then show ?thesis
    by (auto simp add: cleanup_def split: option.splits)
qed

theorem cleanup_idempotent_witness:
  "created_session example_adapter \<and> session example_adapter = Some 0 \<and>
   closed (snd (cleanup example_adapter)) = [0] \<and>
   session (fst (cleanup example_adapter)) = None \<and>
   closed (snd (cleanup (fst (cleanup example_adapter)))) = [] \<and>
   arg_aiohttp_session example_borrowed_args = Some 5 \<and>
   (\<exists>b t. init example_borrowed_args 4 ''UpliftHttpTTSService#0'' 0 = Inr (b, t) \<and>
          session b = Some 5 \<and> closed (snd (cleanup b)) = [])"
proof -
  have c: "created_session example_adapter \<and> session example_adapter = Some 0"
    by (simp add: example_adapter_def)
  have s: "arg_aiohttp_session example_borrowed_args = Some 5"
    by (simp add: example_borrowed_args_def)
  obtain b t where i: "init example_borrowed_args 4 ''UpliftHttpTTSService#0'' 0 = Inr (b, t)"
    by (simp add: init_def example_borrowed_args_def default_args_def Let_def)
  note idem = cleanup_idempotent [of example_adapter 0 example_borrowed_args 4
      "''UpliftHttpTTSService#0''" 0 b t 5]
  from idem c have 1: "closed (snd (cleanup example_adapter)) = [0]"
    and 2: "session (fst (cleanup example_adapter)) = None"
    by simp_all
  from idem have 3: "closed (snd (cleanup (fst (cleanup example_adapter)))) = []"
    by simp
  from idem i s have 4: "session b = Some 5 \<and> closed (snd (cleanup b)) = []"
    by simp
  from c s i 1 2 3 4 show ?thesis by blast
qed

section \<open>Voice and format settings\<close>

text \<open>
  C9. After construction the voice in the settings is the voice registered with the base
  service, and after every \<^verbatim>\<open>set_voice_id\<close> both are the new voice.
  \<^verbatim>\<open>set_output_format\<close> stores the new format and changes nothing else: the registered
  voice and the voice in the settings stay, and putting the old settings back gives the
  old adapter. \<^verbatim>\<open>cleanup\<close> and \<^verbatim>\<open>run_tts\<close> change neither.
\<close>

theorem voice_registration_consistent:
  "(init args cs nm fresh = Inr (a, t) \<longrightarrow>
      voice a = voice_id (settings a) \<and>
      voice_id (settings a) = py_or (params_voice_id (params a)) (arg_voice_id args))
   \<and> voice (fst (set_voice_id v b)) = v
   \<and> voice_id (settings (fst (set_voice_id v b))) = v
   \<and> output_format (settings (fst (set_voice_id v b))) = output_format (settings b)
   \<and> voice (fst (set_output_format f b)) = voice b
   \<and> voice_id (settings (fst (set_output_format f b))) = voice_id (settings b)
   \<and> output_format (settings (fst (set_output_format f b))) = f
   \<and> (fst (set_output_format f b))\<lparr>settings := settings b\<rparr> = b
   \<and> voice (fst (cleanup b)) = voice b \<and> settings (fst (cleanup b)) = settings b
   \<and> fst (run_tts b env text) = b"
proof -
  have "voice a = voice_id (settings a) \<and>
        voice_id (settings a) = py_or (params_voice_id (params a)) (arg_voice_id args)"
    if "init args cs nm fresh = Inr (a, t)"
    using that
    by (auto simp add: init_def Let_def set_voice_def split: if_splits option.splits)
  moreover have "voice (fst (cleanup b)) = voice b \<and> settings (fst (cleanup b)) = settings b"
    by (simp add: cleanup_def split: option.splits)
  ultimately show ?thesis
    by (simp add: set_voice_id_def set_output_format_def set_voice_def fst_run_tts)
qed

theorem voice_registration_consistent_witness:
  "(\<exists>a t. init (default_args ''sk_test'') 4 ''UpliftHttpTTSService#0'' 0 = Inr (a, t) \<and>
          voice a = ''v_8eelc901'' \<and> voice_id (settings a) = ''v_8eelc901'') \<and>
   voice (fst (set_voice_id ''v_kwmp7zxt'' example_adapter)) = ''v_kwmp7zxt'' \<and>
   voice_id (settings (fst (set_voice_id ''v_kwmp7zxt'' example_adapter))) = ''v_kwmp7zxt'' \<and>
   voice (fst (set_output_format ''MP3_22050_64'' example_adapter)) = ''v_8eelc901'' \<and>
   output_format (settings (fst (set_output_format ''MP3_22050_64'' example_adapter))) = ''MP3_22050_64''"
proof -
  obtain a t where i: "init (default_args ''sk_test'') 4 ''UpliftHttpTTSService#0'' 0 = Inr (a, t)"
    "params a = InputParams"
    by (simp add: init_def default_args_def Let_def set_voice_def)
  note inv = voice_registration_consistent [of "default_args ''sk_test''" 4
      "''UpliftHttpTTSService#0''" 0 a t "''v_kwmp7zxt''" example_adapter "''MP3_22050_64''"]
  from inv i have 1: "voice a = ''v_8eelc901'' \<and> voice_id (settings a) = ''v_8eelc901''"
    by (simp add: InputParams_def default_args_def)
  from inv have 2: "voice (fst (set_voice_id ''v_kwmp7zxt'' example_adapter)) = ''v_kwmp7zxt''"
    and 3: "voice_id (settings (fst (set_voice_id ''v_kwmp7zxt'' example_adapter))) = ''v_kwmp7zxt''"
    and 5: "output_format (settings (fst (set_output_format ''MP3_22050_64'' example_adapter))) = ''MP3_22050_64''"
    by simp_all
  from inv have "voice (fst (set_output_format ''MP3_22050_64'' example_adapter)) = voice example_adapter"
    by simp
  then have 4: "voice (fst (set_output_format ''MP3_22050_64'' example_adapter)) = ''v_8eelc901''"
    by (simp add: example_adapter_def)
  from i(1) 1 2 3 4 5 show ?thesis by blast
qed

text \<open>
  C3. The constructor argument \<^verbatim>\<open>output_format\<close> is not honoured when no \<^verbatim>\<open>params\<close>
  object is passed: \<^verbatim>\<open>InputParams()\<close> carries the format \<^verbatim>\<open>"WAV_22050_16"\<close>, which is
  truthy, so \<^verbatim>\<open>self._params.output_format or output_format\<close> never reaches the argument.
  Constructed with \<^verbatim>\<open>output_format="MP3_22050_32"\<close> and no \<^verbatim>\<open>params\<close>, the adapter
  records \<^verbatim>\<open>"WAV_22050_16"\<close>.
\<close>

theorem output_format_argument_ignored:
  "arg_params example_mp3_args = None \<and>
   arg_output_format example_mp3_args = ''MP3_22050_32'' \<and>
   (case init example_mp3_args 4 ''UpliftHttpTTSService#0'' 0 of
      Inl e \<Rightarrow> None
    | Inr (a, t) \<Rightarrow> Some (output_format (settings a))) = Some ''WAV_22050_16''"
  by (simp add: init_def example_mp3_args_def default_args_def InputParams_def Let_def
        set_voice_def)

section \<open>A response with no audio\<close>

text \<open>
  C10. For every call with a session and a chunk size other than zero whose output
  format starts with \<^verbatim>\<open>WAV_\<close> and whose status-200 response has at most 44 bytes, the
  frames yielded are exactly the started marker followed by the stopped marker: no
  audio frame, no error frame, and nothing is passed to \<^verbatim>\<open>push_error\<close>.
\<close>

theorem short_wav_body:
  assumes "session a = Some s" "prefix ''WAV_'' (output_format (settings a))"
    "length bytes \<le> 44" "chunk_size a \<noteq> 0"
  shows "yielded (snd (run_tts a (Inr (Response 200 tr (Inr bytes))) text))
           = [TTSStartedFrame, TTSStoppedFrame]
       \<and> pushed (snd (run_tts a (Inr (Response 200 tr (Inr bytes))) text)) = []"
proof -
  from assms(2,3) have "content_of a bytes = []" by (simp add: content_of_def)
  then have "audio_frames a (content_of a bytes) = []"
    by (simp add: audio_frames_def chunk_count_def)
  with assms(1,4) show ?thesis
    by (simp add: yielded_ok pushed_ok)
qed

theorem short_wav_body_witness:
  "session example_adapter = Some 0 \<and>
   prefix ''WAV_'' (output_format (settings example_adapter)) \<and>
   length (replicate 44 (0::byte)) \<le> 44 \<and> chunk_size example_adapter \<noteq> 0 \<and>
   yielded (snd (run_tts example_adapter
                  (Inr (Response 200 (Inr []) (Inr (replicate 44 0)))) ''hello''))
     = [TTSStartedFrame, TTSStoppedFrame]"
proof -
  have s: "session example_adapter = Some 0" by (simp add: example_adapter_def)
  have p: "prefix ''WAV_'' (output_format (settings example_adapter))"
    by (simp add: example_adapter_def)
  have l: "length (replicate 44 (0::byte)) \<le> 44" by simp
  have c: "chunk_size example_adapter \<noteq> 0" by (simp add: example_adapter_def)
  from short_wav_body [OF s p l c, of "Inr []" "''hello''"] s p l c show ?thesis by blast
qed

end
